theory Spec2Isabelle
  imports Complex_Main
begin

section \<open>Data model\<close>

text \<open>
  The conflict engine of the repository lives in three Python classes:
  \<^verbatim>\<open>NTSCCalculator\<close> (ntsc_calculator.py), \<^verbatim>\<open>EnhancedRouteAnalyzer\<close>
  (enhanced_route_analyzer.py) and \<^verbatim>\<open>AirspaceCapacityAnalyzer\<close> (airspace_capacity.py).

  Numbers: a Python \<^verbatim>\<open>float\<close> is an IEEE 754 binary64 number. Two readings are used.
  In the exact reading a float is a \<^typ>\<open>real\<close> and arithmetic is exact; it is used where a
  claim depends on comparisons, guards and control flow. In the rounded reading every
  arithmetic operation is followed by rounding to binary64 (to nearest, ties to even); it
  is used for the interpolator, where claims depend on the value an expression returns.
  NaN, the infinities, overflow and underflow are outside both readings; the one infinity
  the code writes itself (\<^verbatim>\<open>float('inf')\<close> as the initial minimum distance) is modelled
  explicitly.

  Dictionaries with a fixed set of keys (\<^verbatim>\<open>{'longitude', 'latitude', 'height'}\<close>, with
  \<^verbatim>\<open>'time'\<close> for a waypoint) are modelled as records holding the keys the code reads.

  Errors: the exceptions the modelled code can raise on real-valued input are values of
  \<open>py_error\<close>; a function that can raise returns \<open>py_error + 'a\<close>.
\<close>

datatype py_error = ZeroDivisionError | ValueError

record position =
  longitude :: real
  latitude :: real
  height :: real

record waypoint = position +
  time :: real

record FlightSegment =
  start_time :: real
  end_time :: real
  start_pos :: position
  end_pos :: position
  aircraft_id :: string

section \<open>Binary64 arithmetic\<close>

text \<open>
  Rounding to the nearest integer, ties to the even one, and rounding of a real number to
  53 significant bits: with \<open>2^k \<le> |x| < 2^(k+1)\<close> the unit in the last place is
  \<open>2^(k-52)\<close> and \<open>|x|\<close> is rounded to the nearest multiple of it. The exponent is
  unbounded, so overflow and underflow are not modelled. Every basic operation of a
  Python float (\<^verbatim>\<open>+ - * /\<close>) returns the rounded exact result.
\<close>

definition round_half_even :: "real \<Rightarrow> int" where
  "round_half_even y =
     (let f = \<lfloor>y\<rfloor>
      in if y - of_int f < 1 / 2 then f
         else if 1 / 2 < y - of_int f then f + 1
         else if even f then f else f + 1)"

definition binary64 :: "real \<Rightarrow> real" where
  "binary64 x =
     (if x = 0 then 0
      else
        let u = 2 powr (of_int \<lfloor>log 2 \<bar>x\<bar>\<rfloor> - 52)
        in sgn x * (of_int (round_half_even (\<bar>x\<bar> / u)) * u))"

text \<open>
  A float whose magnitude is small enough that sums and differences of two such floats do
  not overflow, and a segment all of whose times and coordinates are such floats.
\<close>

definition binary64_value :: "real \<Rightarrow> bool" where
  "binary64_value x \<longleftrightarrow> binary64 x = x \<and> \<bar>x\<bar> \<le> 2 ^ 1022"

definition binary64_segment :: "FlightSegment \<Rightarrow> bool" where
  "binary64_segment segment \<longleftrightarrow>
     binary64_value (start_time segment) \<and> binary64_value (end_time segment) \<and>
     binary64_value (longitude (start_pos segment)) \<and>
     binary64_value (latitude (start_pos segment)) \<and>
     binary64_value (height (start_pos segment)) \<and>
     binary64_value (longitude (end_pos segment)) \<and>
     binary64_value (latitude (end_pos segment)) \<and>
     binary64_value (height (end_pos segment))"

section \<open>NTSCCalculator\<close>

subsection \<open>\<^verbatim>\<open>_interpolate_position\<close>\<close>

text \<open>
  \<^verbatim>\<open>t_ratio = (time - segment.start_time) / (segment.end_time - segment.start_time)\<close>
  raises \<^verbatim>\<open>ZeroDivisionError\<close> when the divisor is zero (Python float division);
  then \<^verbatim>\<open>t_ratio = max(0, min(1, t_ratio))\<close> and the three coordinates are
  interpolated with it. First the exact reading; the coordinates it returns are those of
  the code up to rounding only.
\<close>

definition interpolate_position :: "FlightSegment \<Rightarrow> real \<Rightarrow> py_error + position" where
  "interpolate_position segment t =
     (if end_time segment - start_time segment = 0 then Inl ZeroDivisionError
      else
        let t_ratio = (t - start_time segment) / (end_time segment - start_time segment);
            t_ratio = max 0 (min 1 t_ratio)
        in Inr \<lparr>longitude = longitude (start_pos segment) +
                   t_ratio * (longitude (end_pos segment) - longitude (start_pos segment)),
                 latitude = latitude (start_pos segment) +
                   t_ratio * (latitude (end_pos segment) - latitude (start_pos segment)),
                 height = height (start_pos segment) +
                   t_ratio * (height (end_pos segment) - height (start_pos segment))\<rparr>)"

text \<open>
  The rounded reading of the same method: each subtraction, division, multiplication and
  addition is rounded to binary64, in the order in which the Python evaluates them.
\<close>

definition interpolate_position_binary64 :: "FlightSegment \<Rightarrow> real \<Rightarrow> py_error + position" where
  "interpolate_position_binary64 segment t =
     (let d = binary64 (end_time segment - start_time segment)
      in if d = 0 then Inl ZeroDivisionError
         else
           let t_ratio = binary64 (binary64 (t - start_time segment) / d);
               t_ratio = max 0 (min 1 t_ratio)
           in Inr \<lparr>longitude = binary64 (longitude (start_pos segment) +
                      binary64 (t_ratio * binary64 (longitude (end_pos segment) -
                                                    longitude (start_pos segment)))),
                    latitude = binary64 (latitude (start_pos segment) +
                      binary64 (t_ratio * binary64 (latitude (end_pos segment) -
                                                    latitude (start_pos segment)))),
                    height = binary64 (height (start_pos segment) +
                      binary64 (t_ratio * binary64 (height (end_pos segment) -
                                                    height (start_pos segment))))\<rparr>)"

text \<open>The clamped ratio, as the interpolator computes it.\<close>

definition ratio_binary64 :: "FlightSegment \<Rightarrow> real \<Rightarrow> real" where
  "ratio_binary64 segment t =
     max 0 (min 1 (binary64 (binary64 (t - start_time segment) /
                             binary64 (end_time segment - start_time segment))))"

subsection \<open>\<^verbatim>\<open>_haversine_distance\<close>\<close>

text \<open>
  The same method body occurs in all three classes. \<^verbatim>\<open>math.radians\<close> multiplies by
  \<open>pi / 180\<close>; \<^verbatim>\<open>math.sqrt\<close> raises \<^verbatim>\<open>ValueError\<close> on a negative argument;
  \<^verbatim>\<open>math.atan2(y, x)\<close> is the angle of the point \<open>(x, y)\<close> in \<open>(-pi, pi]\<close>.
  Exact reading: here \<open>a\<close> always lies in \<open>[0, 1]\<close>, whereas the code can compute an
  \<open>a\<close> slightly above 1 for nearly antipodal points and then raises \<^verbatim>\<open>ValueError\<close>.
  A fact below that says the distance is returned is a fact of the exact reading.
\<close>

definition radians :: "real \<Rightarrow> real" where
  "radians x = x * pi / 180"

definition py_sqrt :: "real \<Rightarrow> py_error + real" where
  "py_sqrt x = (if x < 0 then Inl ValueError else Inr (sqrt x))"

definition atan2 :: "real \<Rightarrow> real \<Rightarrow> real" where
  "atan2 y x =
     (if 0 < x then arctan (y / x)
      else if x < 0 then (if 0 \<le> y then arctan (y / x) + pi else arctan (y / x) - pi)
      else if 0 < y then pi / 2
      else if y < 0 then - (pi / 2)
      else 0)"

definition haversine_a :: "real \<Rightarrow> real \<Rightarrow> real \<Rightarrow> real \<Rightarrow> real" where
  "haversine_a lat1 lon1 lat2 lon2 =
     (let phi1 = radians lat1;
          phi2 = radians lat2;
          delta_phi = radians (lat2 - lat1);
          delta_lambda = radians (lon2 - lon1)
      in (sin (delta_phi / 2))\<^sup>2 + cos phi1 * cos phi2 * (sin (delta_lambda / 2))\<^sup>2)"

definition haversine_distance :: "real \<Rightarrow> real \<Rightarrow> real \<Rightarrow> real \<Rightarrow> py_error + real" where
  "haversine_distance lat1 lon1 lat2 lon2 =
     (let R = 6371000;
          a = haversine_a lat1 lon1 lat2 lon2
      in case py_sqrt a of
           Inl e \<Rightarrow> Inl e
         | Inr sqrt_a \<Rightarrow>
             (case py_sqrt (1 - a) of
                Inl e \<Rightarrow> Inl e
              | Inr sqrt_1a \<Rightarrow> let c = 2 * atan2 sqrt_a sqrt_1a in Inr (R * c)))"

subsection \<open>\<^verbatim>\<open>_calculate_conflict_duration\<close>\<close>

definition HORIZONTAL_SEPARATION :: real where
  "HORIZONTAL_SEPARATION = 50"

definition VERTICAL_SEPARATION :: real where
  "VERTICAL_SEPARATION = 30"

definition time_step :: real where
  "time_step = 1"

text \<open>
  \<^verbatim>\<open>min_distance\<close> starts as \<^verbatim>\<open>float('inf')\<close>: \<open>None\<close> stands for that infinity,
  \<open>Some d\<close> for the finite distance \<open>d\<close>.
\<close>

fun min_inf :: "real option \<Rightarrow> real \<Rightarrow> real option" where
  "min_inf None d = Some d"
| "min_inf (Some m) d = Some (min m d)"

text \<open>
  The body of the \<^verbatim>\<open>while\<close> loop, on the pair of loop variables
  \<^verbatim>\<open>(conflict_duration, min_distance)\<close>, at sampling time \<open>t\<close>.
\<close>

definition sample_step ::
  "FlightSegment \<Rightarrow> FlightSegment \<Rightarrow> real \<Rightarrow> real \<times> real option
     \<Rightarrow> py_error + (real \<times> real option)" where
  "sample_step seg1 seg2 t acc =
     (case acc of (conflict_duration, min_distance) \<Rightarrow>
      case interpolate_position seg1 t of
        Inl e \<Rightarrow> Inl e
      | Inr pos1 \<Rightarrow>
      case interpolate_position seg2 t of
        Inl e \<Rightarrow> Inl e
      | Inr pos2 \<Rightarrow>
      case haversine_distance (latitude pos1) (longitude pos1)
                              (latitude pos2) (longitude pos2) of
        Inl e \<Rightarrow> Inl e
      | Inr horizontal_dist \<Rightarrow>
      let vertical_dist = \<bar>height pos1 - height pos2\<bar> in
      case py_sqrt (horizontal_dist\<^sup>2 + vertical_dist\<^sup>2) of
        Inl e \<Rightarrow> Inl e
      | Inr total_distance \<Rightarrow>
          Inr (if horizontal_dist < HORIZONTAL_SEPARATION \<and>
                  vertical_dist < VERTICAL_SEPARATION
               then conflict_duration + time_step else conflict_duration,
               min_inf min_distance total_distance))"

text \<open>
  \<^verbatim>\<open>while t <= overlap_end: ...; t += time_step\<close>. Exact reading: \<open>t + 1\<close> always
  advances, which the termination proof uses; in binary64 \<open>t + 1.0\<close> equals \<open>t\<close> from
  \<open>2^53\<close> on, where the Python loop does not end, and for times that are not integers
  the number of samples can differ by one from the exact count.
\<close>

function conflict_loop ::
  "FlightSegment \<Rightarrow> FlightSegment \<Rightarrow> real \<Rightarrow> real \<Rightarrow> real \<times> real option
     \<Rightarrow> py_error + (real \<times> real option)" where
  "conflict_loop seg1 seg2 overlap_end t acc =
     (if t \<le> overlap_end then
        (case sample_step seg1 seg2 t acc of
           Inl e \<Rightarrow> Inl e
         | Inr acc' \<Rightarrow> conflict_loop seg1 seg2 overlap_end (t + time_step) acc')
      else Inr acc)"
  by pat_completeness auto
termination
proof (relation "measure (\<lambda>(seg1, seg2, overlap_end, t, acc). nat (\<lfloor>overlap_end - t\<rfloor> + 1))")
  show "wf (measure (\<lambda>(seg1 :: FlightSegment, seg2 :: FlightSegment, overlap_end :: real,
                        t :: real, acc :: real \<times> real option). nat (\<lfloor>overlap_end - t\<rfloor> + 1)))"
    by simp
next
  fix seg1 seg2 :: FlightSegment and overlap_end t :: real and acc acc' :: "real \<times> real option"
  assume le: "t \<le> overlap_end"
  have eq: "overlap_end - (t + time_step) = (overlap_end - t) - 1"
    by (simp add: time_step_def)
  have "\<lfloor>overlap_end - (t + time_step)\<rfloor> = \<lfloor>overlap_end - t\<rfloor> - 1"
    unfolding eq by simp
  moreover have "0 \<le> \<lfloor>overlap_end - t\<rfloor>"
    using le by simp
  ultimately show
    "((seg1, seg2, overlap_end, t + time_step, acc'), (seg1, seg2, overlap_end, t, acc))
       \<in> measure (\<lambda>(seg1, seg2, overlap_end, t, acc). nat (\<lfloor>overlap_end - t\<rfloor> + 1))"
    by simp
qed

definition calculate_conflict_duration ::
  "FlightSegment \<Rightarrow> FlightSegment \<Rightarrow> real \<Rightarrow> real \<Rightarrow> py_error + (real \<times> real option)" where
  "calculate_conflict_duration seg1 seg2 overlap_start overlap_end =
     conflict_loop seg1 seg2 overlap_end overlap_start (0, None)"

subsection \<open>Loops over lists\<close>

text \<open>
  \<^verbatim>\<open>for x in xs: body\<close> on a loop state, stopping at the first exception, and
  \<^verbatim>\<open>for i in range(len(xs)): for j in range(i + 1, len(xs)): body(xs[i], xs[j])\<close>,
  which visits every pair of positions \<open>i < j\<close> in lexicographic order.
\<close>

fun for_each :: "('a \<Rightarrow> 's \<Rightarrow> py_error + 's) \<Rightarrow> 'a list \<Rightarrow> 's \<Rightarrow> py_error + 's" where
  "for_each body [] s = Inr s"
| "for_each body (x # xs) s =
     (case body x s of Inl e \<Rightarrow> Inl e | Inr s' \<Rightarrow> for_each body xs s')"

fun for_pairs :: "('a \<Rightarrow> 'a \<Rightarrow> 's \<Rightarrow> py_error + 's) \<Rightarrow> 'a list \<Rightarrow> 's \<Rightarrow> py_error + 's" where
  "for_pairs body [] s = Inr s"
| "for_pairs body (x # xs) s =
     (case for_each (body x) xs s of Inl e \<Rightarrow> Inl e | Inr s' \<Rightarrow> for_pairs body xs s')"

subsection \<open>\<^verbatim>\<open>calculate_ntsc\<close>\<close>

record conflict_detail =
  aircraft_pair :: "string \<times> string"
  duration :: real
  min_distance :: "real option"
  time_range :: "real \<times> real"

record ntsc_result =
  ntsc_value :: real
  conflict_percentage :: real
  total_flight_time :: real
  total_conflict_time :: real
  conflict_details :: "conflict_detail list"
  safety_level :: string

definition get_safety_level :: "real \<Rightarrow> string" where
  "get_safety_level ntsc =
     (if ntsc < 0.01 then ''EXCELLENT''
      else if ntsc < 0.05 then ''GOOD''
      else if ntsc < 0.1 then ''ACCEPTABLE''
      else if ntsc < 0.2 then ''WARNING''
      else ''CRITICAL'')"

text \<open>
  The body of the inner loop over \<open>j\<close>, on the loop state
  \<^verbatim>\<open>(conflict_time, conflict_details)\<close>; \<^verbatim>\<open>continue\<close> returns the state unchanged.
\<close>

definition check_pair ::
  "FlightSegment \<Rightarrow> FlightSegment \<Rightarrow> real \<times> conflict_detail list
     \<Rightarrow> py_error + (real \<times> conflict_detail list)" where
  "check_pair seg1 seg2 st =
     (case st of (conflict_time, details) \<Rightarrow>
      if aircraft_id seg1 = aircraft_id seg2 then Inr st
      else
        let overlap_start = max (start_time seg1) (start_time seg2);
            overlap_end = min (end_time seg1) (end_time seg2)
        in if overlap_start < overlap_end then
             (case calculate_conflict_duration seg1 seg2 overlap_start overlap_end of
                Inl e \<Rightarrow> Inl e
              | Inr (conflict_duration, min_dist) \<Rightarrow>
                  if conflict_duration > 0 then
                    Inr (conflict_time + conflict_duration,
                         details @ [\<lparr>aircraft_pair = (aircraft_id seg1, aircraft_id seg2),
                                      duration = conflict_duration,
                                      min_distance = min_dist,
                                      time_range = (overlap_start, overlap_end)\<rparr>])
                  else Inr st)
           else Inr st)"

definition calculate_ntsc :: "FlightSegment list \<Rightarrow> py_error + ntsc_result" where
  "calculate_ntsc flight_segments =
     (let total = foldl (\<lambda>acc segment. acc + (end_time segment - start_time segment))
                    0 flight_segments
      in case for_pairs check_pair flight_segments (0, []) of
           Inl e \<Rightarrow> Inl e
         | Inr (conflict_time, details) \<Rightarrow>
             let ntsc = (if total > 0 then conflict_time / total else 0)
             in Inr \<lparr>ntsc_value = ntsc,
                     conflict_percentage = ntsc * 100,
                     total_flight_time = total,
                     total_conflict_time = conflict_time,
                     conflict_details = details,
                     safety_level = get_safety_level ntsc\<rparr>)"

section \<open>EnhancedRouteAnalyzer\<close>

record route =
  name :: string
  path :: "waypoint list"

record conflict =
  route1 :: string
  route2 :: string
  point1_index :: nat
  point2_index :: nat
  time :: real
  distance :: real
  location :: position
  severity :: string

record overall_risk =
  level :: string
  score :: nat
  critical_conflicts :: "nat option"
  high_conflicts :: "nat option"

record conflict_report =
  total_conflicts :: nat
  conflicts :: "conflict list"
  risk_assessment :: overall_risk

definition SAFETY_SEPARATION :: real where
  "SAFETY_SEPARATION = 50"

definition calculate_conflict_severity :: "real \<Rightarrow> real \<Rightarrow> string" where
  "calculate_conflict_severity distance' time_diff =
     (if distance' < 20 \<and> time_diff < 10 then ''CRITICAL''
      else if distance' < 30 \<and> time_diff < 30 then ''HIGH''
      else if distance' < 40 \<and> time_diff < 45 then ''MEDIUM''
      else ''LOW'')"

text \<open>
  The order of the severity tiers, LOW < MEDIUM < HIGH < CRITICAL, as a rank on the
  strings the classifier returns.
\<close>

definition severity_rank :: "string \<Rightarrow> nat" where
  "severity_rank s =
     (if s = ''CRITICAL'' then 3
      else if s = ''HIGH'' then 2
      else if s = ''MEDIUM'' then 1
      else 0)"

text \<open>
  \<^verbatim>\<open>_assess_overall_risk\<close>: the dictionary returned for an empty list has no
  \<^verbatim>\<open>critical_conflicts\<close> and \<^verbatim>\<open>high_conflicts\<close> keys.
\<close>

definition assess_overall_risk :: "conflict list \<Rightarrow> overall_risk" where
  "assess_overall_risk cs =
     (if cs = [] then
        \<lparr>level = ''SAFE'', score = 0, critical_conflicts = None, high_conflicts = None\<rparr>
      else
        let critical_count = length (filter (\<lambda>c. severity c = ''CRITICAL'') cs);
            high_count = length (filter (\<lambda>c. severity c = ''HIGH'') cs);
            risk_score = critical_count * 10 + high_count * 5 + length cs;
            lvl = (if risk_score > 50 then ''UNACCEPTABLE''
                   else if risk_score > 30 then ''HIGH''
                   else if risk_score > 10 then ''MEDIUM''
                   else ''LOW'')
        in \<lparr>level = lvl, score = risk_score,
             critical_conflicts = Some critical_count, high_conflicts = Some high_count\<rparr>)"

text \<open>\<^verbatim>\<open>enumerate(xs)\<close>: the elements of a list paired with their indices.\<close>

definition enumerate_list :: "'a list \<Rightarrow> (nat \<times> 'a) list" where
  "enumerate_list xs = zip [0..<length xs] xs"

text \<open>
  The body of the innermost loop of \<^verbatim>\<open>analyze_route_conflicts\<close>, on the list
  \<^verbatim>\<open>conflicts\<close>, for the waypoints \<open>point1\<close> (index \<open>k1\<close>) and \<open>point2\<close> (index \<open>k2\<close>)
  of the routes named \<open>n1\<close> and \<open>n2\<close>.
\<close>

definition check_points ::
  "string \<Rightarrow> string \<Rightarrow> nat \<times> waypoint \<Rightarrow> nat \<times> waypoint \<Rightarrow> conflict list
     \<Rightarrow> py_error + conflict list" where
  "check_points n1 n2 kp1 kp2 cs =
     (case kp1 of (k1, point1) \<Rightarrow> case kp2 of (k2, point2) \<Rightarrow>
      let time_diff = \<bar>waypoint.time point1 - waypoint.time point2\<bar> in
      if time_diff < 60 then
        (case haversine_distance (latitude point1) (longitude point1)
                                 (latitude point2) (longitude point2) of
           Inl e \<Rightarrow> Inl e
         | Inr horizontal_distance \<Rightarrow>
             let vertical_distance = \<bar>height point1 - height point2\<bar> in
             (case py_sqrt (horizontal_distance\<^sup>2 + vertical_distance\<^sup>2) of
                Inl e \<Rightarrow> Inl e
              | Inr total_distance \<Rightarrow>
                  if total_distance < SAFETY_SEPARATION then
                    Inr (cs @ [\<lparr>route1 = n1, route2 = n2,
                                 point1_index = k1, point2_index = k2,
                                 time = waypoint.time point1,
                                 distance = total_distance,
                                 location =
                                   \<lparr>longitude = (longitude point1 + longitude point2) / 2,
                                    latitude = (latitude point1 + latitude point2) / 2,
                                    height = (height point1 + height point2) / 2\<rparr>,
                                 severity =
                                   calculate_conflict_severity total_distance time_diff\<rparr>])
                  else Inr cs))
      else Inr cs)"

definition check_routes :: "route \<Rightarrow> route \<Rightarrow> conflict list \<Rightarrow> py_error + conflict list" where
  "check_routes r1 r2 =
     for_each (\<lambda>kp1. for_each (check_points (name r1) (name r2) kp1)
                                (enumerate_list (path r2)))
              (enumerate_list (path r1))"

definition analyze_route_conflicts :: "route list \<Rightarrow> py_error + conflict_report" where
  "analyze_route_conflicts routes =
     (case for_pairs check_routes routes [] of
        Inl e \<Rightarrow> Inl e
      | Inr cs \<Rightarrow>
          Inr \<lparr>total_conflicts = length cs,
               conflicts = cs,
               risk_assessment = assess_overall_risk cs\<rparr>)"

section \<open>AirspaceCapacityAnalyzer\<close>











section \<open>Loop invariant of \<^verbatim>\<open>calculate_ntsc\<close>\<close>

text \<open>
  A proof device, not part of the program: what holds of the loop state
  \<^verbatim>\<open>(conflict_time, conflict_details)\<close> before and after every execution of the inner
  loop body. The accumulated conflict time is non-negative and is the sum of the recorded
  durations, and every recorded event names two different aircraft.
\<close>

definition ntsc_invariant :: "real \<times> conflict_detail list \<Rightarrow> bool" where
  "ntsc_invariant st =
     (case st of (conflict_time, details) \<Rightarrow>
        0 \<le> conflict_time \<and>
        conflict_time = sum_list (map duration details) \<and>
        list_all (\<lambda>d. fst (aircraft_pair d) \<noteq> snd (aircraft_pair d)) details)"

section \<open>Auxiliary facts\<close>

subsection \<open>Interpolation\<close>

lemma interpolate_position_total:
  "end_time seg \<noteq> start_time seg \<Longrightarrow> \<exists>p. interpolate_position seg t = Inr p"
  by (simp add: interpolate_position_def Let_def)

subsection \<open>Rounding to binary64\<close>

lemma round_half_even_of_int: "round_half_even (of_int n) = n"
  by (simp add: round_half_even_def)

lemma round_half_even_range:
  "\<lfloor>y\<rfloor> \<le> round_half_even y" "round_half_even y \<le> \<lfloor>y\<rfloor> + 1"
  by (simp_all add: round_half_even_def Let_def)

lemma round_half_even_mono:
  assumes "y \<le> z"
  shows "round_half_even y \<le> round_half_even z"
proof (cases "\<lfloor>y\<rfloor> = \<lfloor>z\<rfloor>")
  case True
  then show ?thesis
    using assms by (auto simp add: round_half_even_def Let_def)
next
  case False
  then have "\<lfloor>y\<rfloor> + 1 \<le> \<lfloor>z\<rfloor>"
    using floor_mono [OF assms] by simp
  then show ?thesis
    using round_half_even_range(2) [of y] round_half_even_range(1) [of z] by linarith
qed

lemma binary64_zero: "binary64 0 = 0"
  by (simp add: binary64_def)

lemma binary64_minus: "binary64 (- x) = - binary64 x"
  by (simp add: binary64_def Let_def sgn_minus)

lemma binary64_eval:
  assumes "2 powr of_int k \<le> x" "x < 2 powr (of_int k + 1)"
  shows "binary64 x = of_int (round_half_even (x / 2 powr (of_int k - 52))) * 2 powr (of_int k - 52)"
proof -
  have pos: "0 < x"
    using assms(1) powr_gt_zero [of 2 "of_int k"] by linarith
  have "\<lfloor>log 2 x\<rfloor> = k"
    using pos assms by (simp add: floor_log_eq_powr_iff)
  then show ?thesis
    using pos by (simp add: binary64_def Let_def)
qed

lemma ulp_scale:
  "2 ^ 52 * 2 powr (a - 52) = (2 powr a :: real)"
  "2 ^ 53 * 2 powr (a - 52) = (2 powr (a + 1) :: real)"
proof -
  have "2 powr of_nat 52 * 2 powr (a - 52) = (2 powr (of_nat 52 + (a - 52)) :: real)"
    by (simp only: powr_add)
  moreover have "2 powr of_nat 52 = (2 ^ 52 :: real)"
    by (rule powr_realpow) simp
  moreover have "of_nat 52 + (a - 52) = a"
    by simp
  ultimately show "2 ^ 52 * 2 powr (a - 52) = (2 powr a :: real)"
    by (simp only:)
  have "2 powr of_nat 53 * 2 powr (a - 52) = (2 powr (of_nat 53 + (a - 52)) :: real)"
    by (simp only: powr_add)
  moreover have "2 powr of_nat 53 = (2 ^ 53 :: real)"
    by (rule powr_realpow) simp
  moreover have "of_nat 53 + (a - 52) = a + 1"
    by simp
  ultimately show "2 ^ 53 * 2 powr (a - 52) = (2 powr (a + 1) :: real)"
    by (simp only:)
qed

lemma of_int_two_power_le:
  "(2 ^ m \<le> n) = ((2 :: real) ^ m \<le> of_int n)" "(n \<le> 2 ^ m) = (of_int n \<le> (2 :: real) ^ m)"
  "(n < 2 ^ m) = (of_int n < (2 :: real) ^ m)"
proof -
  have e: "(2 :: real) ^ m = of_int (2 ^ m)"
    by simp
  show "(2 ^ m \<le> n) = ((2 :: real) ^ m \<le> of_int n)"
    unfolding e by (simp only: of_int_le_iff)
  show "(n \<le> 2 ^ m) = (of_int n \<le> (2 :: real) ^ m)"
    unfolding e by (simp only: of_int_le_iff)
  show "(n < 2 ^ m) = (of_int n < (2 :: real) ^ m)"
    unfolding e by (simp only: of_int_less_iff)
qed

lemma powr_neg_nat: "2 powr (- real n) = 1 / 2 ^ n"
  by (simp add: powr_minus_divide powr_realpow)

lemma binary64_eval_nat:
  assumes "2 ^ 52 / 2 ^ n \<le> x" "x < 2 ^ 53 / 2 ^ n"
  shows "binary64 x = of_int (round_half_even (x * 2 ^ n)) / 2 ^ n"
proof -
  have u: "2 powr (of_int (52 - int n) - 52) = (1 :: real) / 2 ^ n"
    using powr_neg_nat [of n] by simp
  have "2 ^ 52 * 2 powr (of_int (52 - int n) - 52) = (2 powr of_int (52 - int n) :: real)"
    by (rule ulp_scale)
  then have lo: "2 powr of_int (52 - int n) = (2 :: real) ^ 52 / 2 ^ n"
    unfolding u by simp
  have "2 ^ 53 * 2 powr (of_int (52 - int n) - 52) = (2 powr (of_int (52 - int n) + 1) :: real)"
    by (rule ulp_scale)
  then have hi: "2 powr (of_int (52 - int n) + 1) = (2 :: real) ^ 53 / 2 ^ n"
    unfolding u by simp
  show ?thesis
    using binary64_eval [of "52 - int n" x] assms unfolding u lo hi by simp
qed

text \<open>The shape of a rounded positive number: a 53-bit integer times a power of two.\<close>

lemma binary64_pos_form:
  assumes "0 < x"
  defines "k \<equiv> \<lfloor>log 2 x\<rfloor>"
  defines "n \<equiv> round_half_even (x / 2 powr (of_int k - 52))"
  shows "2 powr of_int k \<le> x" "x < 2 powr (of_int k + 1)"
    "binary64 x = of_int n * 2 powr (of_int k - 52)" "2 ^ 52 \<le> n" "n \<le> 2 ^ 53"
proof -
  let ?u = "2 powr (of_int k - 52) :: real"
  have u: "0 < ?u"
    by simp
  show lo: "2 powr of_int k \<le> x" and hi: "x < 2 powr (of_int k + 1)"
    using assms(1) floor_log_eq_powr_iff [of x 2 k] by (simp_all add: k_def)
  show "binary64 x = of_int n * ?u"
    unfolding n_def by (rule binary64_eval [OF lo hi])
  have "2 ^ 52 * ?u \<le> x"
    using lo by (simp only: ulp_scale)
  then have "2 ^ 52 \<le> x / ?u"
    using u by (simp add: pos_le_divide_eq)
  then have "of_int (2 ^ 52) \<le> x / ?u"
    by simp
  then have "round_half_even (of_int (2 ^ 52)) \<le> n"
    unfolding n_def by (rule round_half_even_mono)
  then show "2 ^ 52 \<le> n"
    by (simp only: round_half_even_of_int)
  have "x < 2 ^ 53 * ?u"
    using hi by (simp only: ulp_scale)
  then have "x / ?u \<le> 2 ^ 53"
    using u by (simp add: pos_divide_le_eq)
  then have "x / ?u \<le> of_int (2 ^ 53)"
    by simp
  then have "n \<le> round_half_even (of_int (2 ^ 53))"
    unfolding n_def by (rule round_half_even_mono)
  then show "n \<le> 2 ^ 53"
    by (simp only: round_half_even_of_int)
qed

lemma binary64_pos_bounds:
  assumes "0 < x"
  shows "2 powr of_int \<lfloor>log 2 x\<rfloor> \<le> binary64 x"
    "binary64 x \<le> 2 powr (of_int \<lfloor>log 2 x\<rfloor> + 1)"
proof -
  let ?k = "\<lfloor>log 2 x\<rfloor>"
  let ?n = "round_half_even (x / 2 powr (of_int ?k - 52))"
  let ?u = "2 powr (of_int ?k - 52) :: real"
  note f = binary64_pos_form [OF assms]
  have "2 ^ 52 \<le> (of_int ?n :: real)"
    using f(4) by (simp only: of_int_two_power_le)
  then have "2 ^ 52 * ?u \<le> of_int ?n * ?u"
    by (intro mult_right_mono) simp_all
  then show "2 powr of_int ?k \<le> binary64 x"
    unfolding f(3) by (simp only: ulp_scale)
  have "(of_int ?n :: real) \<le> 2 ^ 53"
    using f(5) by (simp only: of_int_two_power_le)
  then have "of_int ?n * ?u \<le> 2 ^ 53 * ?u"
    by (intro mult_right_mono) simp_all
  then show "binary64 x \<le> 2 powr (of_int ?k + 1)"
    unfolding f(3) by (simp only: ulp_scale)
qed

lemma binary64_pos: "0 < x \<Longrightarrow> 0 < binary64 x"
  using binary64_pos_bounds(1) [of x] powr_gt_zero [of 2 "of_int \<lfloor>log 2 x\<rfloor>"] by linarith

lemma binary64_mono_pos:
  assumes "0 < x" "x \<le> y"
  shows "binary64 x \<le> binary64 y"
proof -
  have y: "0 < y"
    using assms by simp
  let ?kx = "\<lfloor>log 2 x\<rfloor>" and ?ky = "\<lfloor>log 2 y\<rfloor>"
  have "log 2 x \<le> log 2 y"
    using assms by simp
  then have le: "?kx \<le> ?ky"
    by (rule floor_mono)
  show ?thesis
  proof (cases "?kx = ?ky")
    case True
    let ?u = "2 powr (of_int ?ky - 52) :: real"
    have "x / ?u \<le> y / ?u"
      using assms(2) by (intro divide_right_mono) simp_all
    then have "round_half_even (x / ?u) \<le> round_half_even (y / ?u)"
      by (rule round_half_even_mono)
    then have "of_int (round_half_even (x / ?u)) * ?u \<le> of_int (round_half_even (y / ?u)) * ?u"
      by (intro mult_right_mono) simp_all
    then show ?thesis
      using binary64_pos_form(3) [OF assms(1)] binary64_pos_form(3) [OF y] True by simp
  next
    case False
    then have "of_int ?kx + 1 \<le> (of_int ?ky :: real)"
      using le by linarith
    then have "2 powr (of_int ?kx + 1) \<le> (2 powr of_int ?ky :: real)"
      by (intro powr_mono) simp_all
    then show ?thesis
      using binary64_pos_bounds(2) [OF assms(1)] binary64_pos_bounds(1) [OF y] by linarith
  qed
qed

lemma binary64_mono:
  assumes "x \<le> y"
  shows "binary64 x \<le> binary64 y"
proof -
  consider "0 < x" | "x \<le> 0" "0 \<le> y" | "y < 0"
    using assms by linarith
  then show ?thesis
  proof cases
    case 1
    then show ?thesis
      using assms by (rule binary64_mono_pos)
  next
    case 2
    have "binary64 x \<le> 0"
    proof (cases "x = 0")
      case True
      then show ?thesis by (simp add: binary64_zero)
    next
      case False
      then have "0 < binary64 (- x)"
        using 2(1) by (intro binary64_pos) simp
      then show ?thesis
        by (simp add: binary64_minus)
    qed
    moreover have "0 \<le> binary64 y"
    proof (cases "y = 0")
      case True
      then show ?thesis by (simp add: binary64_zero)
    next
      case False
      then have "0 < binary64 y"
        using 2(2) by (intro binary64_pos) simp
      then show ?thesis by simp
    qed
    ultimately show ?thesis
      by simp
  next
    case 3
    then have "binary64 (- y) \<le> binary64 (- x)"
      using assms by (intro binary64_mono_pos) simp_all
    then show ?thesis
      by (simp add: binary64_minus)
  qed
qed

lemma binary64_idem_pos:
  assumes "0 < x"
  shows "binary64 (binary64 x) = binary64 x"
proof -
  let ?k = "\<lfloor>log 2 x\<rfloor>"
  let ?n = "round_half_even (x / 2 powr (of_int ?k - 52))"
  let ?u = "2 powr (of_int ?k - 52) :: real"
  note f = binary64_pos_form [OF assms]
  have u: "0 < ?u"
    by simp
  show ?thesis
  proof (cases "?n = 2 ^ 53")
    case True
    have "binary64 x = 2 ^ 53 * ?u"
      unfolding f(3) True by simp
    then have b: "binary64 x = 2 powr (of_int (?k + 1))"
      by (simp only: ulp_scale of_int_add of_int_1)
    let ?v = "2 powr (of_int (?k + 1) - 52) :: real"
    have v: "2 ^ 52 * ?v = binary64 x"
      unfolding b by (rule ulp_scale)
    have "binary64 (binary64 x) = of_int (round_half_even (binary64 x / ?v)) * ?v"
      by (rule binary64_eval) (simp_all add: b)
    also have "binary64 x / ?v = of_int (2 ^ 52)"
      unfolding v [symmetric] by simp
    finally show ?thesis
      unfolding round_half_even_of_int using v by simp
  next
    case False
    then have "?n < 2 ^ 53"
      using f(5) by simp
    then have "(of_int ?n :: real) < 2 ^ 53"
      by (simp only: of_int_two_power_le)
    then have "of_int ?n * ?u < 2 ^ 53 * ?u"
      using u by (intro mult_strict_right_mono)
    then have hi: "binary64 x < 2 powr (of_int ?k + 1)"
      unfolding f(3) by (simp only: ulp_scale)
    have "binary64 (binary64 x) = of_int (round_half_even (binary64 x / ?u)) * ?u"
      using binary64_pos_bounds(1) [OF assms] hi by (rule binary64_eval)
    also have "binary64 x / ?u = of_int ?n"
      unfolding f(3) by simp
    finally show ?thesis
      unfolding f(3) by (simp only: round_half_even_of_int)
  qed
qed

lemma binary64_idem: "binary64 (binary64 x) = binary64 x"
proof -
  consider "0 < x" | "x = 0" | "x < 0"
    by linarith
  then show ?thesis
  proof cases
    case 1
    then show ?thesis by (rule binary64_idem_pos)
  next
    case 2
    then show ?thesis by (simp add: binary64_zero)
  next
    case 3
    then have "binary64 (binary64 (- x)) = binary64 (- x)"
      by (intro binary64_idem_pos) simp
    then show ?thesis
      by (simp add: binary64_minus)
  qed
qed

lemma binary64_eq_zero_iff: "binary64 x = 0 \<longleftrightarrow> x = 0"
proof
  assume z: "binary64 x = 0"
  show "x = 0"
  proof (rule ccontr)
    assume "x \<noteq> 0"
    then consider "0 < x" | "0 < - x"
      by linarith
    then show False
    proof cases
      case 1
      then show False
        using binary64_pos [of x] z by simp
    next
      case 2
      then show False
        using binary64_pos [of "- x"] z by (simp add: binary64_minus)
    qed
  qed
qed (simp add: binary64_zero)

lemma binary64_one: "binary64 1 = 1"
  using binary64_eval_nat [of 52 1] by (simp add: round_half_even_def)

lemma binary64_nonneg: "0 \<le> x \<Longrightarrow> 0 \<le> binary64 x"
  using binary64_mono [of 0 x] by (simp add: binary64_zero)

lemma binary64_nonpos: "x \<le> 0 \<Longrightarrow> binary64 x \<le> 0"
  using binary64_mono [of x 0] by (simp add: binary64_zero)

subsection \<open>The rounded interpolator\<close>

lemma interpolate_position_binary64_ratio:
  assumes "end_time seg \<noteq> start_time seg"
  shows "interpolate_position_binary64 seg t =
           Inr \<lparr>longitude = binary64 (longitude (start_pos seg) +
                    binary64 (ratio_binary64 seg t * binary64 (longitude (end_pos seg) -
                                                              longitude (start_pos seg)))),
                 latitude = binary64 (latitude (start_pos seg) +
                    binary64 (ratio_binary64 seg t * binary64 (latitude (end_pos seg) -
                                                              latitude (start_pos seg)))),
                 height = binary64 (height (start_pos seg) +
                    binary64 (ratio_binary64 seg t * binary64 (height (end_pos seg) -
                                                              height (start_pos seg))))\<rparr>"
  using assms
  by (simp add: interpolate_position_binary64_def ratio_binary64_def Let_def binary64_eq_zero_iff)


lemma ratio_binary64_before:
  assumes "start_time seg < end_time seg" "t \<le> start_time seg"
  shows "ratio_binary64 seg t = 0"
proof -
  have "0 < binary64 (end_time seg - start_time seg)"
    using assms(1) by (intro binary64_pos) simp
  moreover have "binary64 (t - start_time seg) \<le> 0"
    using assms(2) by (intro binary64_nonpos) simp
  ultimately have
    "binary64 (t - start_time seg) / binary64 (end_time seg - start_time seg) \<le> 0"
    by (simp add: divide_nonpos_pos)
  then have "binary64 (binary64 (t - start_time seg) /
               binary64 (end_time seg - start_time seg)) \<le> 0"
    by (rule binary64_nonpos)
  then show ?thesis
    by (simp add: ratio_binary64_def)
qed

lemma ratio_binary64_after:
  assumes "start_time seg < end_time seg" "end_time seg \<le> t"
  shows "ratio_binary64 seg t = 1"
proof -
  let ?d = "binary64 (end_time seg - start_time seg)"
  have d: "0 < ?d"
    using assms(1) by (intro binary64_pos) simp
  have "?d \<le> binary64 (t - start_time seg)"
    using assms(2) by (intro binary64_mono) simp
  then have "1 \<le> binary64 (t - start_time seg) / ?d"
    using d by (simp add: le_divide_eq)
  then have "binary64 1 \<le> binary64 (binary64 (t - start_time seg) / ?d)"
    by (rule binary64_mono)
  then show ?thesis
    by (simp add: ratio_binary64_def binary64_one)
qed

text \<open>One coordinate: \<^verbatim>\<open>a + r * (b - a)\<close> with every operation rounded.\<close>

lemma lerp_binary64_zero:
  assumes "binary64 a = a"
  shows "binary64 (a + binary64 (0 * binary64 (b - a))) = a"
  using assms by (simp add: binary64_zero)

lemma lerp_binary64_one:
  "binary64 (a + binary64 (1 * binary64 (b - a))) = binary64 (a + binary64 (b - a))"
  by (simp add: binary64_idem)


lemma binary64_three_tenths: "binary64 (3 / 10) = 5404319552844595 / 2 ^ 54"
  using binary64_eval_nat [of 54 "3 / 10"] by (simp add: round_half_even_def)

lemma binary64_five: "binary64 5 = 5"
  using binary64_eval_nat [of 50 5] by (simp add: round_half_even_def)

lemma binary64_sixty: "binary64 60 = 60"
  using binary64_eval_nat [of 47 60] by (simp add: round_half_even_def)

lemma descent_difference:
  "binary64 (binary64 (3 / 10) - 5) = - (5291729562160333 / 2 ^ 50)"
  unfolding binary64_three_tenths
  using binary64_eval_nat [of 50 "5 - 5404319552844595 / 2 ^ 54"]
    binary64_minus [of "5 - 5404319552844595 / 2 ^ 54"]
  by (simp add: round_half_even_def)

lemma descent_sum:
  "binary64 (5 + binary64 (binary64 (3 / 10) - 5)) = 5404319552844592 / 2 ^ 54"
  unfolding descent_difference
  using binary64_eval_nat [of 54 "5 - 5291729562160333 / 2 ^ 50"]
  by (simp add: round_half_even_def)

lemma descent_at_ratio_one:
  assumes "ratio_binary64
     \<lparr>start_time = 0, end_time = 60,
      start_pos = \<lparr>longitude = 0, latitude = 0, height = 5\<rparr>,
      end_pos = \<lparr>longitude = 0, latitude = 0, height = binary64 (3 / 10)\<rparr>,
      aircraft_id = ''A''\<rparr> t = 1"
  shows "interpolate_position_binary64
     \<lparr>start_time = 0, end_time = 60,
      start_pos = \<lparr>longitude = 0, latitude = 0, height = 5\<rparr>,
      end_pos = \<lparr>longitude = 0, latitude = 0, height = binary64 (3 / 10)\<rparr>,
      aircraft_id = ''A''\<rparr> t
   = Inr \<lparr>longitude = 0, latitude = 0, height = 5404319552844592 / 2 ^ 54\<rparr>"
proof -
  have "interpolate_position_binary64
     \<lparr>start_time = 0, end_time = 60,
      start_pos = \<lparr>longitude = 0, latitude = 0, height = 5\<rparr>,
      end_pos = \<lparr>longitude = 0, latitude = 0, height = binary64 (3 / 10)\<rparr>,
      aircraft_id = ''A''\<rparr> t
   = Inr \<lparr>longitude = 0, latitude = 0,
           height = binary64 (5 + binary64 (binary64 (3 / 10) - 5))\<rparr>"
    by (subst interpolate_position_binary64_ratio)
       (simp_all add: assms binary64_zero binary64_idem)
  then show ?thesis
    by (simp only: descent_sum)
qed

lemma example_values:
  "binary64_value 0" "binary64_value 60" "binary64_value (453 / 4)" "binary64_value (185 / 8)"
  "binary64_value 120" "binary64_value (227 / 2)" "binary64_value (93 / 4)" "binary64_value 100"
  using binary64_eval_nat [of 47 60] binary64_eval_nat [of 46 "453 / 4"]
    binary64_eval_nat [of 48 "185 / 8"] binary64_eval_nat [of 46 120]
    binary64_eval_nat [of 46 "227 / 2"] binary64_eval_nat [of 48 "93 / 4"]
    binary64_eval_nat [of 46 100]
  by (simp_all add: binary64_value_def binary64_zero round_half_even_def)

lemma example_segment:
  "binary64_segment
     \<lparr>start_time = 0, end_time = 60,
      start_pos = \<lparr>longitude = 113.25, latitude = 23.125, height = 120\<rparr>,
      end_pos = \<lparr>longitude = 113.5, latitude = 23.25, height = 100\<rparr>,
      aircraft_id = ''Route-EW''\<rparr>"
  by (simp add: binary64_segment_def example_values)

subsection \<open>The haversine distance and the sampling loop never fail\<close>

lemma sin_half_squared: "(sin (x / 2))\<^sup>2 = (1 - cos x) / 2" for x :: real
  using cos_double_sin [of "x / 2"] by simp

lemma convex_unit:
  fixes h u v :: real
  assumes "0 \<le> h" "h \<le> 1" "0 \<le> u" "u \<le> 1" "0 \<le> v" "v \<le> 1"
  shows "0 \<le> (1 - h) * u + h * v" "(1 - h) * u + h * v \<le> 1"
proof -
  show "0 \<le> (1 - h) * u + h * v"
    using assms by simp
  have "(1 - h) * u \<le> (1 - h) * 1" "h * v \<le> h * 1"
    using assms by (intro mult_left_mono; simp)+
  then show "(1 - h) * u + h * v \<le> 1"
    by simp
qed

lemma half_range:
  fixes c :: real
  assumes "- 1 \<le> c" "c \<le> 1"
  shows "0 \<le> (1 - c) / 2" "(1 - c) / 2 \<le> 1" "0 \<le> (1 + c) / 2" "(1 + c) / 2 \<le> 1"
  using assms by simp_all

lemma haversine_a_convex:
  "haversine_a lat1 lon1 lat2 lon2 =
     (1 - (sin (radians (lon2 - lon1) / 2))\<^sup>2) * ((1 - cos (radians lat2 - radians lat1)) / 2) +
     (sin (radians (lon2 - lon1) / 2))\<^sup>2 * ((1 + cos (radians lat1 + radians lat2)) / 2)"
proof -
  have d: "radians (lat2 - lat1) = radians lat2 - radians lat1"
    by (simp add: radians_def algebra_simps diff_divide_distrib)
  have alg: "(1 - (c2 * c1 + s2 * s1)) / 2 + c1 * c2 * h =
               (1 - h) * ((1 - (c2 * c1 + s2 * s1)) / 2) + h * ((1 + (c1 * c2 - s1 * s2)) / 2)"
    for c1 c2 s1 s2 h :: real
    by (simp add: field_simps)
  show ?thesis
    unfolding haversine_a_def Let_def d sin_half_squared [of "radians lat2 - radians lat1"]
      cos_diff cos_add
    by (rule alg)
qed

lemma haversine_a_range:
  "0 \<le> haversine_a lat1 lon1 lat2 lon2" "haversine_a lat1 lon1 lat2 lon2 \<le> 1"
proof -
  let ?h = "(sin (radians (lon2 - lon1) / 2))\<^sup>2"
  let ?u = "(1 - cos (radians lat2 - radians lat1)) / 2"
  let ?v = "(1 + cos (radians lat1 + radians lat2)) / 2"
  have h: "0 \<le> ?h" "?h \<le> 1"
    using abs_sin_le_one [of "radians (lon2 - lon1) / 2"] by (simp_all add: abs_square_le_1)
  have u: "0 \<le> ?u" "?u \<le> 1"
    by (rule half_range(1) [OF cos_ge_minus_one cos_le_one])
       (rule half_range(2) [OF cos_ge_minus_one cos_le_one])
  have v: "0 \<le> ?v" "?v \<le> 1"
    by (rule half_range(3) [OF cos_ge_minus_one cos_le_one])
       (rule half_range(4) [OF cos_ge_minus_one cos_le_one])
  show "0 \<le> haversine_a lat1 lon1 lat2 lon2"
    unfolding haversine_a_convex using convex_unit(1) [OF h u v] .
  show "haversine_a lat1 lon1 lat2 lon2 \<le> 1"
    unfolding haversine_a_convex using convex_unit(2) [OF h u v] .
qed

lemma atan2_nonneg: "0 \<le> y \<Longrightarrow> 0 \<le> x \<Longrightarrow> 0 \<le> atan2 y x"
  by (auto simp add: atan2_def zero_le_arctan_iff)

lemma haversine_distance_total:
  "haversine_distance lat1 lon1 lat2 lon2 =
     Inr (6371000 * (2 * atan2 (sqrt (haversine_a lat1 lon1 lat2 lon2))
                               (sqrt (1 - haversine_a lat1 lon1 lat2 lon2))))"
  using haversine_a_range(1) [of lat1 lon1 lat2 lon2] haversine_a_range(2) [of lat1 lon1 lat2 lon2]
  by (simp add: haversine_distance_def py_sqrt_def Let_def not_less)

lemma haversine_distance_nonneg:
  "\<exists>d. haversine_distance lat1 lon1 lat2 lon2 = Inr d \<and> 0 \<le> d"
  using haversine_a_range(1) [of lat1 lon1 lat2 lon2] haversine_a_range(2) [of lat1 lon1 lat2 lon2]
  by (simp add: haversine_distance_total atan2_nonneg)

lemma py_sqrt_sum_squares: "py_sqrt (x\<^sup>2 + y\<^sup>2) = Inr (sqrt (x\<^sup>2 + y\<^sup>2))"
  by (simp add: py_sqrt_def not_less)

lemma sample_step_eq:
  assumes "interpolate_position seg1 t = Inr p1"
      and "interpolate_position seg2 t = Inr p2"
      and "haversine_distance (latitude p1) (longitude p1) (latitude p2) (longitude p2) = Inr hdist"
  shows "sample_step seg1 seg2 t (cd, md) =
           Inr (if hdist < HORIZONTAL_SEPARATION \<and> \<bar>height p1 - height p2\<bar> < VERTICAL_SEPARATION
                then cd + time_step else cd,
                min_inf md (sqrt (hdist\<^sup>2 + \<bar>height p1 - height p2\<bar>\<^sup>2)))"
  using assms by (simp add: sample_step_def Let_def py_sqrt_sum_squares)

lemma sample_step_total:
  assumes "end_time seg1 \<noteq> start_time seg1" and "end_time seg2 \<noteq> start_time seg2"
  shows "\<exists>acc'. sample_step seg1 seg2 t acc = Inr acc' \<and> fst acc \<le> fst acc'"
proof -
  obtain p1 where p1: "interpolate_position seg1 t = Inr p1"
    using interpolate_position_total [OF assms(1)] by blast
  obtain p2 where p2: "interpolate_position seg2 t = Inr p2"
    using interpolate_position_total [OF assms(2)] by blast
  obtain hdist where hdist:
    "haversine_distance (latitude p1) (longitude p1) (latitude p2) (longitude p2) = Inr hdist"
    using haversine_distance_nonneg by blast
  obtain cd md where acc: "acc = (cd, md)"
    by (cases acc)
  show ?thesis
    unfolding acc sample_step_eq [OF p1 p2 hdist] by (simp add: time_step_def)
qed

lemma conflict_loop_total:
  assumes "end_time seg1 \<noteq> start_time seg1" and "end_time seg2 \<noteq> start_time seg2"
  shows "\<exists>acc'. conflict_loop seg1 seg2 overlap_end t acc = Inr acc' \<and> fst acc \<le> fst acc'"
  using assms
proof (induction seg1 seg2 overlap_end t acc rule: conflict_loop.induct)
  case (1 seg1 seg2 overlap_end t acc)
  show ?case
  proof (cases "t \<le> overlap_end")
    case False
    then show ?thesis
      by (subst conflict_loop.simps) simp
  next
    case True
    obtain acc1 where step: "sample_step seg1 seg2 t acc = Inr acc1" and le1: "fst acc \<le> fst acc1"
      using sample_step_total [OF "1.prems"] by blast
    obtain acc2 where
      rest: "conflict_loop seg1 seg2 overlap_end (t + time_step) acc1 = Inr acc2"
      and le2: "fst acc1 \<le> fst acc2"
      using "1.IH" [OF True step "1.prems"] by blast
    have "conflict_loop seg1 seg2 overlap_end t acc = Inr acc2"
      using True step rest by (subst conflict_loop.simps) simp
    then show ?thesis
      using le1 le2 by simp
  qed
qed

lemma overlap_nondegenerate:
  fixes s1 s2 e1 e2 :: real
  assumes "max s1 s2 < min e1 e2"
  shows "e1 \<noteq> s1" "e2 \<noteq> s2"
  using assms by auto

lemma for_each_invariant:
  assumes step: "\<And>x s. I s \<Longrightarrow> \<exists>s'. body x s = Inr s' \<and> I s'"
      and init: "I s"
  shows "\<exists>s'. for_each body xs s = Inr s' \<and> I s'"
  using init
proof (induction xs arbitrary: s)
  case Nil
  then show ?case by simp
next
  case (Cons x xs)
  obtain s1 where s1: "body x s = Inr s1" "I s1"
    using step [OF Cons.prems] by blast
  show ?case
    using Cons.IH [OF s1(2)] s1(1) by simp
qed

lemma for_pairs_invariant:
  assumes step: "\<And>x y s. I s \<Longrightarrow> \<exists>s'. body x y s = Inr s' \<and> I s'"
      and init: "I s"
  shows "\<exists>s'. for_pairs body xs s = Inr s' \<and> I s'"
  using init
proof (induction xs arbitrary: s)
  case Nil
  then show ?case by simp
next
  case (Cons x xs)
  obtain s1 where s1: "for_each (body x) xs s = Inr s1" "I s1"
    using for_each_invariant [of I "body x", OF step Cons.prems] by blast
  show ?case
    using Cons.IH [OF s1(2)] s1(1) by simp
qed

text \<open>What one execution of the inner loop body does to the loop state.\<close>

lemma check_pair_cases:
  "check_pair seg1 seg2 (ct, ds) = Inr (ct, ds) \<or>
   (\<exists>cd md. aircraft_id seg1 \<noteq> aircraft_id seg2 \<and> 0 < cd \<and>
      check_pair seg1 seg2 (ct, ds) =
        Inr (ct + cd,
             ds @ [\<lparr>aircraft_pair = (aircraft_id seg1, aircraft_id seg2),
                     duration = cd, min_distance = md,
                     time_range = (max (start_time seg1) (start_time seg2),
                                   min (end_time seg1) (end_time seg2))\<rparr>]))"
proof (cases "aircraft_id seg1 \<noteq> aircraft_id seg2 \<and>
              max (start_time seg1) (start_time seg2) < min (end_time seg1) (end_time seg2)")
  case False
  then show ?thesis
    by (auto simp add: check_pair_def Let_def)
next
  case True
  then have nd: "end_time seg1 \<noteq> start_time seg1" "end_time seg2 \<noteq> start_time seg2"
    using overlap_nondegenerate by blast+
  obtain acc' where loop:
    "calculate_conflict_duration seg1 seg2 (max (start_time seg1) (start_time seg2))
       (min (end_time seg1) (end_time seg2)) = Inr acc'"
    unfolding calculate_conflict_duration_def using conflict_loop_total [OF nd] by blast
  obtain cd md where acc': "acc' = (cd, md)"
    by (cases acc')
  show ?thesis
    using True loop unfolding acc' by (simp add: check_pair_def Let_def)
qed

subsection \<open>Evaluating the loops and the distance\<close>

lemma conflict_loop_continue:
  "t \<le> overlap_end \<Longrightarrow>
   conflict_loop seg1 seg2 overlap_end t acc =
     (case sample_step seg1 seg2 t acc of
        Inl e \<Rightarrow> Inl e
      | Inr acc' \<Rightarrow> conflict_loop seg1 seg2 overlap_end (t + time_step) acc')"
  by (subst conflict_loop.simps) simp

lemma conflict_loop_exit:
  "\<not> t \<le> overlap_end \<Longrightarrow> conflict_loop seg1 seg2 overlap_end t acc = Inr acc"
  by (subst conflict_loop.simps) simp

lemma haversine_same_point: "haversine_distance lat lon lat lon = Inr 0"
  by (simp add: haversine_distance_total haversine_a_def radians_def atan2_def)

lemma haversine_same_meridian:
  assumes "0 \<le> d" "d < 180"
  shows "haversine_distance lat lon (lat + d) lon = Inr (6371000 * radians d)"
proof -
  let ?x = "radians d / 2"
  have x: "0 \<le> ?x" "?x < pi / 2"
    using assms by (simp_all add: radians_def)
  have "radians 0 = 0"
    by (simp add: radians_def)
  then have a: "haversine_a lat lon (lat + d) lon = (sin ?x)\<^sup>2"
    by (simp add: haversine_a_def Let_def)
  have s: "0 \<le> sin ?x"
    using x by (intro sin_ge_zero) simp_all
  have c: "0 < cos ?x"
    using x by (intro cos_gt_zero_pi) simp_all
  have "1 - (sin ?x)\<^sup>2 = (cos ?x)\<^sup>2"
    by (simp add: cos_squared_eq)
  then have sq: "sqrt (1 - (sin ?x)\<^sup>2) = cos ?x" "sqrt ((sin ?x)\<^sup>2) = sin ?x"
    using s c by simp_all
  have "atan2 (sin ?x) (cos ?x) = arctan (tan ?x)"
    using c by (simp add: atan2_def tan_def)
  also have "\<dots> = ?x"
    using x by (intro arctan_tan) simp_all
  finally have at: "atan2 (sin ?x) (cos ?x) = ?x" .
  have "haversine_distance lat lon (lat + d) lon =
          Inr (6371000 * (2 * atan2 (sqrt ((sin ?x)\<^sup>2)) (sqrt (1 - (sin ?x)\<^sup>2))))"
    unfolding haversine_distance_total a ..
  also have "\<dots> = Inr (6371000 * (2 * ?x))"
    by (simp only: sq at)
  finally show ?thesis
    by simp
qed

lemma check_points_total: "\<exists>cs'. check_points n1 n2 kp1 kp2 cs = Inr cs'"
proof -
  obtain k1 point1 where kp1: "kp1 = (k1, point1)" by (cases kp1)
  obtain k2 point2 where kp2: "kp2 = (k2, point2)" by (cases kp2)
  obtain d where d:
    "haversine_distance (latitude point1) (longitude point1)
       (latitude point2) (longitude point2) = Inr d"
    using haversine_distance_nonneg by blast
  show ?thesis
    unfolding kp1 kp2
    by (simp add: check_points_def Let_def d py_sqrt_sum_squares)
qed

lemma for_each_total:
  assumes "\<And>x s. \<exists>s'. body x s = Inr s'"
  shows "\<exists>s'. for_each body xs s = Inr s'"
  using for_each_invariant [where I = "\<lambda>_. True" and body = body and xs = xs and s = s] assms
  by simp

lemma for_pairs_total:
  assumes "\<And>x y s. \<exists>s'. body x y s = Inr s'"
  shows "\<exists>s'. for_pairs body xs s = Inr s'"
  using for_pairs_invariant [where I = "\<lambda>_. True" and body = body and xs = xs and s = s] assms
  by simp

lemma check_routes_total: "\<exists>cs'. check_routes r1 r2 cs = Inr cs'"
  unfolding check_routes_def
  by (intro for_each_total check_points_total)



subsection \<open>The loop invariant holds\<close>

lemma check_pair_invariant:
  assumes "ntsc_invariant s"
  shows "\<exists>s'. check_pair seg1 seg2 s = Inr s' \<and> ntsc_invariant s'"
proof -
  obtain ct ds where s: "s = (ct, ds)"
    by (cases s)
  from check_pair_cases [of seg1 seg2 ct ds] show ?thesis
  proof
    assume "check_pair seg1 seg2 (ct, ds) = Inr (ct, ds)"
    then show ?thesis
      using assms by (simp add: s)
  next
    assume "\<exists>cd md. aircraft_id seg1 \<noteq> aircraft_id seg2 \<and> 0 < cd \<and>
      check_pair seg1 seg2 (ct, ds) =
        Inr (ct + cd,
             ds @ [\<lparr>aircraft_pair = (aircraft_id seg1, aircraft_id seg2),
                     duration = cd, min_distance = md,
                     time_range = (max (start_time seg1) (start_time seg2),
                                   min (end_time seg1) (end_time seg2))\<rparr>])"
    then obtain cd md where ne: "aircraft_id seg1 \<noteq> aircraft_id seg2" and cd: "0 < cd"
      and eq: "check_pair seg1 seg2 (ct, ds) =
        Inr (ct + cd,
             ds @ [\<lparr>aircraft_pair = (aircraft_id seg1, aircraft_id seg2),
                     duration = cd, min_distance = md,
                     time_range = (max (start_time seg1) (start_time seg2),
                                   min (end_time seg1) (end_time seg2))\<rparr>])"
      by blast
    show ?thesis
      using assms ne cd unfolding s eq by (simp add: ntsc_invariant_def)
  qed
qed

lemma for_pairs_check_pair:
  "\<exists>s'. for_pairs check_pair segs (0, []) = Inr s' \<and> ntsc_invariant s'"
proof (rule for_pairs_invariant [of ntsc_invariant check_pair])
  show "\<exists>s'. check_pair x y s = Inr s' \<and> ntsc_invariant s'" if "ntsc_invariant s" for x y s
    using that by (rule check_pair_invariant)
  show "ntsc_invariant (0, [])"
    by (simp add: ntsc_invariant_def)
qed

lemma calculate_ntsc_result:
  "\<exists>r. calculate_ntsc segs = Inr r \<and>
     ntsc_invariant (total_conflict_time r, conflict_details r) \<and>
     ntsc_value r = (if total_flight_time r > 0
                     then total_conflict_time r / total_flight_time r else 0)"
proof -
  obtain s' where s': "for_pairs check_pair segs (0, []) = Inr s'" "ntsc_invariant s'"
    using for_pairs_check_pair by blast
  obtain ct ds where p: "s' = (ct, ds)"
    by (cases s')
  show ?thesis
    using s' unfolding p by (simp add: calculate_ntsc_def Let_def)
qed

lemma hover_step:
  assumes "s1 \<noteq> e1" "s2 \<noteq> e2"
  shows "sample_step
           \<lparr>start_time = s1, end_time = e1, start_pos = p, end_pos = p, aircraft_id = a\<rparr>
           \<lparr>start_time = s2, end_time = e2, start_pos = p, end_pos = p, aircraft_id = b\<rparr>
           t (cd, md) = Inr (cd + 1, min_inf md 0)"
  using assms
  by (simp add: sample_step_def interpolate_position_def haversine_same_point py_sqrt_def
        time_step_def HORIZONTAL_SEPARATION_def VERTICAL_SEPARATION_def Let_def)

lemma interpolate_hover:
  assumes "s \<noteq> e"
  shows "interpolate_position
           \<lparr>start_time = s, end_time = e, start_pos = p, end_pos = p, aircraft_id = a\<rparr> t
         = Inr p"
  using assms by (cases p) (simp add: interpolate_position_def Let_def)

text \<open>A point \<open>m\<close> metres due north of another is at haversine distance \<open>m\<close>.\<close>

lemma haversine_north:
  assumes "0 \<le> m" and "m < 6371000 * pi"
  shows "haversine_distance lat lon (lat + m * 180 / (6371000 * pi)) lon = Inr m"
proof -
  have "m * 180 / (6371000 * pi) < 180"
    using assms(2) by (simp add: field_simps)
  moreover have "0 \<le> m * 180 / (6371000 * pi)"
    using assms(1) by simp
  ultimately have
    "haversine_distance lat lon (lat + m * 180 / (6371000 * pi)) lon =
       Inr (6371000 * radians (m * 180 / (6371000 * pi)))"
    by (intro haversine_same_meridian)
  then show ?thesis
    by (simp add: radians_def)
qed

text \<open>
  The test of \<^verbatim>\<open>analyze_route_conflicts\<close> is a different one: a single strict comparison
  of the 3D distance with \<^verbatim>\<open>SAFETY_SEPARATION\<close>, for two waypoints less than 60 s apart.
\<close>

lemma check_points_strict:
  assumes "\<bar>waypoint.time point1 - waypoint.time point2\<bar> < 60"
      and "haversine_distance (latitude point1) (longitude point1)
             (latitude point2) (longitude point2) = Inr hdist"
  shows "(\<exists>c. check_points n1 n2 (k1, point1) (k2, point2) cs = Inr (cs @ [c])) \<longleftrightarrow>
           sqrt (hdist\<^sup>2 + \<bar>height point1 - height point2\<bar>\<^sup>2) < SAFETY_SEPARATION"
  using assms by (simp add: check_points_def Let_def py_sqrt_sum_squares)

section \<open>The claims\<close>

text \<open>
  C1, as stated, fails. Two aircraft hover at the same point for a quarter of a second:
  the total flight time is 1/2, the single sample at time 0 counts one whole time step of
  conflict, and the ratio is 2.
\<close>

theorem ntsc_value_exceeds_one:
  "calculate_ntsc
     [\<lparr>start_time = 0, end_time = 1 / 4,
       start_pos = \<lparr>longitude = 113.32, latitude = 23.12, height = 120\<rparr>,
       end_pos = \<lparr>longitude = 113.32, latitude = 23.12, height = 120\<rparr>,
       aircraft_id = ''A''\<rparr>,
      \<lparr>start_time = 0, end_time = 1 / 4,
       start_pos = \<lparr>longitude = 113.32, latitude = 23.12, height = 120\<rparr>,
       end_pos = \<lparr>longitude = 113.32, latitude = 23.12, height = 120\<rparr>,
       aircraft_id = ''B''\<rparr>]
   = Inr \<lparr>ntsc_value = 2, conflict_percentage = 200, total_flight_time = 1 / 2,
           total_conflict_time = 1,
           conflict_details = [\<lparr>aircraft_pair = (''A'', ''B''), duration = 1,
                                min_distance = Some 0, time_range = (0, 1 / 4)\<rparr>],
           safety_level = ''CRITICAL''\<rparr>"
  by (simp add: calculate_ntsc_def check_pair_def calculate_conflict_duration_def
        conflict_loop_continue conflict_loop_exit hover_step time_step_def
        get_safety_level_def Let_def)

text \<open>
  C1, amended: whenever \<^verbatim>\<open>calculate_ntsc\<close> returns a result for a list of flight
  segments, its \<^verbatim>\<open>ntsc_value\<close> is at least 0. No upper bound is claimed, and nothing is
  claimed about the lists on which it returns.
\<close>

theorem ntsc_value_nonneg:
  assumes "calculate_ntsc segs = Inr r"
  shows "0 \<le> ntsc_value r"
proof -
  obtain r' where r': "calculate_ntsc segs = Inr r'"
    and inv: "ntsc_invariant (total_conflict_time r', conflict_details r')"
    and v: "ntsc_value r' = (if total_flight_time r' > 0
                             then total_conflict_time r' / total_flight_time r' else 0)"
    using calculate_ntsc_result [of segs] by blast
  have "0 \<le> total_conflict_time r'"
    using inv by (simp add: ntsc_invariant_def)
  then have "0 \<le> ntsc_value r'"
    unfolding v by simp
  moreover have "r' = r"
    using assms r' by simp
  ultimately show ?thesis
    by simp
qed

theorem ntsc_value_nonneg_witness:
  "calculate_ntsc
     [\<lparr>start_time = 0, end_time = 2,
       start_pos = \<lparr>longitude = 113.32, latitude = 23.12, height = 120\<rparr>,
       end_pos = \<lparr>longitude = 113.32, latitude = 23.12, height = 120\<rparr>,
       aircraft_id = ''A''\<rparr>,
      \<lparr>start_time = 1, end_time = 3,
       start_pos = \<lparr>longitude = 113.32, latitude = 23.12, height = 120\<rparr>,
       end_pos = \<lparr>longitude = 113.32, latitude = 23.12, height = 120\<rparr>,
       aircraft_id = ''B''\<rparr>]
   = Inr \<lparr>ntsc_value = 1 / 2, conflict_percentage = 50, total_flight_time = 4,
           total_conflict_time = 2,
           conflict_details = [\<lparr>aircraft_pair = (''A'', ''B''), duration = 2,
                                min_distance = Some 0, time_range = (1, 2)\<rparr>],
           safety_level = ''CRITICAL''\<rparr> \<and>
   (0 :: real) \<le> 1 / 2"
proof -
  have run: "calculate_ntsc
     [\<lparr>start_time = 0, end_time = 2,
       start_pos = \<lparr>longitude = 113.32, latitude = 23.12, height = 120\<rparr>,
       end_pos = \<lparr>longitude = 113.32, latitude = 23.12, height = 120\<rparr>,
       aircraft_id = ''A''\<rparr>,
      \<lparr>start_time = 1, end_time = 3,
       start_pos = \<lparr>longitude = 113.32, latitude = 23.12, height = 120\<rparr>,
       end_pos = \<lparr>longitude = 113.32, latitude = 23.12, height = 120\<rparr>,
       aircraft_id = ''B''\<rparr>]
   = Inr \<lparr>ntsc_value = 1 / 2, conflict_percentage = 50, total_flight_time = 4,
           total_conflict_time = 2,
           conflict_details = [\<lparr>aircraft_pair = (''A'', ''B''), duration = 2,
                                min_distance = Some 0, time_range = (1, 2)\<rparr>],
           safety_level = ''CRITICAL''\<rparr>"
    by (simp add: calculate_ntsc_def check_pair_def calculate_conflict_duration_def
          conflict_loop_continue conflict_loop_exit hover_step time_step_def
          get_safety_level_def Let_def)
  from ntsc_value_nonneg [OF run] run show ?thesis
    by simp
qed

text \<open>
  C2, as stated, fails: on a segment with \<^verbatim>\<open>end_time == start_time\<close> the interpolator
  divides by zero and raises.
\<close>

theorem interpolate_degenerate_raises_example:
  "interpolate_position
     \<lparr>start_time = 5, end_time = 5,
      start_pos = \<lparr>longitude = 113.32, latitude = 23.12, height = 120\<rparr>,
      end_pos = \<lparr>longitude = 113.33, latitude = 23.13, height = 100\<rparr>,
      aircraft_id = ''A''\<rparr> 5
   = Inl ZeroDivisionError"
  by (simp add: interpolate_position_def)

text \<open>
  C2, amended: for every segment whose \<^verbatim>\<open>end_time\<close> equals its \<^verbatim>\<open>start_time\<close> and every
  query time, \<^verbatim>\<open>_interpolate_position\<close> raises \<^verbatim>\<open>ZeroDivisionError\<close>; the loop body of
  \<^verbatim>\<open>calculate_ntsc\<close> never samples such a segment: paired with any other segment, in
  either order, it leaves the loop state unchanged.
\<close>

theorem interpolate_degenerate_raises:
  assumes "end_time seg = start_time seg"
  shows "interpolate_position seg t = Inl ZeroDivisionError \<and>
         check_pair seg other st = Inr st \<and>
         check_pair other seg st = Inr st"
proof -
  have "\<not> max (start_time seg) (start_time other) < min (end_time seg) (end_time other)"
       "\<not> max (start_time other) (start_time seg) < min (end_time other) (end_time seg)"
    using assms by auto
  then show ?thesis
    using assms by (cases st) (simp add: interpolate_position_def check_pair_def Let_def)
qed

theorem interpolate_degenerate_raises_witness:
  "interpolate_position
     \<lparr>start_time = 5, end_time = 5,
      start_pos = \<lparr>longitude = 113.32, latitude = 23.12, height = 120\<rparr>,
      end_pos = \<lparr>longitude = 113.33, latitude = 23.13, height = 100\<rparr>,
      aircraft_id = ''A''\<rparr> 7 = Inl ZeroDivisionError \<and>
   check_pair
     \<lparr>start_time = 5, end_time = 5,
      start_pos = \<lparr>longitude = 113.32, latitude = 23.12, height = 120\<rparr>,
      end_pos = \<lparr>longitude = 113.33, latitude = 23.13, height = 100\<rparr>,
      aircraft_id = ''A''\<rparr>
     \<lparr>start_time = 0, end_time = 10,
      start_pos = \<lparr>longitude = 113.32, latitude = 23.12, height = 120\<rparr>,
      end_pos = \<lparr>longitude = 113.32, latitude = 23.12, height = 120\<rparr>,
      aircraft_id = ''B''\<rparr> (0, []) = Inr (0, []) \<and>
   check_pair
     \<lparr>start_time = 0, end_time = 10,
      start_pos = \<lparr>longitude = 113.32, latitude = 23.12, height = 120\<rparr>,
      end_pos = \<lparr>longitude = 113.32, latitude = 23.12, height = 120\<rparr>,
      aircraft_id = ''B''\<rparr>
     \<lparr>start_time = 5, end_time = 5,
      start_pos = \<lparr>longitude = 113.32, latitude = 23.12, height = 120\<rparr>,
      end_pos = \<lparr>longitude = 113.33, latitude = 23.13, height = 100\<rparr>,
      aircraft_id = ''A''\<rparr> (0, []) = Inr (0, [])"
  by (rule interpolate_degenerate_raises) simp



text \<open>
  C4: the sampled conflict test is strict in both components. For a sample of two
  segments at time \<open>t\<close> with horizontal distance \<open>hdist\<close> and vertical distance
  \<open>|height p1 - height p2|\<close>: at exactly the two separation thresholds the sample is not
  counted (the conflict duration is unchanged); strictly below both thresholds it is
  counted (the conflict duration grows by one time step); and it is not counted as soon
  as either component reaches its threshold.
\<close>

theorem threshold_strictness:
  assumes "interpolate_position seg1 t = Inr p1"
      and "interpolate_position seg2 t = Inr p2"
      and "haversine_distance (latitude p1) (longitude p1) (latitude p2) (longitude p2) = Inr hdist"
  shows "(hdist = HORIZONTAL_SEPARATION \<and> \<bar>height p1 - height p2\<bar> = VERTICAL_SEPARATION \<longrightarrow>
            (\<exists>md'. sample_step seg1 seg2 t (cd, md) = Inr (cd, md'))) \<and>
         (hdist < HORIZONTAL_SEPARATION \<and> \<bar>height p1 - height p2\<bar> < VERTICAL_SEPARATION \<longrightarrow>
            (\<exists>md'. sample_step seg1 seg2 t (cd, md) = Inr (cd + time_step, md'))) \<and>
         (HORIZONTAL_SEPARATION \<le> hdist \<or> VERTICAL_SEPARATION \<le> \<bar>height p1 - height p2\<bar> \<longrightarrow>
            (\<exists>md'. sample_step seg1 seg2 t (cd, md) = Inr (cd, md')))"
  unfolding sample_step_eq [OF assms] by auto

theorem threshold_strictness_witness:
  "haversine_distance 23.12 113.32 (23.12 + 50 * 180 / (6371000 * pi)) 113.32 = Inr 50 \<and>
   haversine_distance 23.12 113.32 (23.12 + 49 * 180 / (6371000 * pi)) 113.32 = Inr 49 \<and>
   (\<exists>md'. sample_step
      \<lparr>start_time = 0, end_time = 10,
       start_pos = \<lparr>longitude = 113.32, latitude = 23.12, height = 100\<rparr>,
       end_pos = \<lparr>longitude = 113.32, latitude = 23.12, height = 100\<rparr>,
       aircraft_id = ''A''\<rparr>
      \<lparr>start_time = 0, end_time = 10,
       start_pos = \<lparr>longitude = 113.32, latitude = 23.12 + 50 * 180 / (6371000 * pi),
                    height = 130\<rparr>,
       end_pos = \<lparr>longitude = 113.32, latitude = 23.12 + 50 * 180 / (6371000 * pi),
                  height = 130\<rparr>,
       aircraft_id = ''B''\<rparr> 0 (0, None) = Inr (0, md')) \<and>
   (\<exists>md'. sample_step
      \<lparr>start_time = 0, end_time = 10,
       start_pos = \<lparr>longitude = 113.32, latitude = 23.12, height = 100\<rparr>,
       end_pos = \<lparr>longitude = 113.32, latitude = 23.12, height = 100\<rparr>,
       aircraft_id = ''A''\<rparr>
      \<lparr>start_time = 0, end_time = 10,
       start_pos = \<lparr>longitude = 113.32, latitude = 23.12 + 49 * 180 / (6371000 * pi),
                    height = 129\<rparr>,
       end_pos = \<lparr>longitude = 113.32, latitude = 23.12 + 49 * 180 / (6371000 * pi),
                  height = 129\<rparr>,
       aircraft_id = ''B''\<rparr> 0 (0, None) = Inr (1, md'))"
proof -
  let ?pA = "\<lparr>longitude = 113.32, latitude = 23.12, height = 100\<rparr> :: position"
  let ?pB = "\<lparr>longitude = 113.32, latitude = 23.12 + 50 * 180 / (6371000 * pi),
              height = 130\<rparr> :: position"
  let ?pC = "\<lparr>longitude = 113.32, latitude = 23.12 + 49 * 180 / (6371000 * pi),
              height = 129\<rparr> :: position"
  let ?A = "\<lparr>start_time = 0, end_time = 10, start_pos = ?pA, end_pos = ?pA,
             aircraft_id = ''A''\<rparr>"
  let ?B = "\<lparr>start_time = 0, end_time = 10, start_pos = ?pB, end_pos = ?pB,
             aircraft_id = ''B''\<rparr>"
  let ?C = "\<lparr>start_time = 0, end_time = 10, start_pos = ?pC, end_pos = ?pC,
             aircraft_id = ''B''\<rparr>"
  have big50: "(50 :: real) < 6371000 * pi"
    using pi_ge_two by linarith
  have big49: "(49 :: real) < 6371000 * pi"
    using pi_ge_two by linarith
  have iA: "interpolate_position ?A 0 = Inr ?pA"
    by (rule interpolate_hover) simp
  have iB: "interpolate_position ?B 0 = Inr ?pB"
    by (rule interpolate_hover) simp
  have iC: "interpolate_position ?C 0 = Inr ?pC"
    by (rule interpolate_hover) simp
  have hB: "haversine_distance (latitude ?pA) (longitude ?pA) (latitude ?pB) (longitude ?pB)
              = Inr 50"
    using haversine_north [OF _ big50, of "23.12" "113.32"] by simp
  have hC: "haversine_distance (latitude ?pA) (longitude ?pA) (latitude ?pC) (longitude ?pC)
              = Inr 49"
    using haversine_north [OF _ big49, of "23.12" "113.32"] by simp
  have at: "\<exists>md'. sample_step ?A ?B 0 (0, None) = Inr (0, md')"
    using threshold_strictness [OF iA iB hB, of 0 None]
    by (simp add: HORIZONTAL_SEPARATION_def VERTICAL_SEPARATION_def)
  have below: "\<exists>md'. sample_step ?A ?C 0 (0, None) = Inr (1, md')"
    using threshold_strictness [OF iA iC hC, of 0 None]
    by (simp add: HORIZONTAL_SEPARATION_def VERTICAL_SEPARATION_def time_step_def)
  from at below hB hC show ?thesis
    by simp
qed

text \<open>
  C5, as stated, fails at the end of the segment. A descent from height 5.0 to height 0.3
  (the float nearest to 3/10) over 60 seconds: at \<^verbatim>\<open>end_time\<close> the ratio is 1 and the
  height returned is \<open>5.0 + (0.3 - 5.0)\<close> as rounded, three units in the last place
  below the end height.
\<close>

theorem interpolate_position_end_differs:
  "interpolate_position_binary64
     \<lparr>start_time = 0, end_time = 60,
      start_pos = \<lparr>longitude = 0, latitude = 0, height = 5\<rparr>,
      end_pos = \<lparr>longitude = 0, latitude = 0, height = binary64 (3 / 10)\<rparr>,
      aircraft_id = ''A''\<rparr> 60
   = Inr \<lparr>longitude = 0, latitude = 0, height = 5404319552844592 / 2 ^ 54\<rparr> \<and>
   binary64 (3 / 10) = 5404319552844595 / 2 ^ 54"
proof -
  have "ratio_binary64
     \<lparr>start_time = 0, end_time = 60,
      start_pos = \<lparr>longitude = 0, latitude = 0, height = 5\<rparr>,
      end_pos = \<lparr>longitude = 0, latitude = 0, height = binary64 (3 / 10)\<rparr>,
      aircraft_id = ''A''\<rparr> 60 = 1"
    by (rule ratio_binary64_after) simp_all
  from descent_at_ratio_one [OF this] binary64_three_tenths show ?thesis
    by (rule conjI)
qed

text \<open>
  C5, amended: for every segment with \<^verbatim>\<open>end_time > start_time\<close> whose times and
  coordinates are floats, the interpolated position at \<^verbatim>\<open>start_time\<close> is \<^verbatim>\<open>start_pos\<close>,
  and a query time before the start is clamped to \<^verbatim>\<open>start_pos\<close>; at \<^verbatim>\<open>end_time\<close> each
  coordinate is \<open>start + (end - start)\<close> with both operations rounded, which need not be
  the coordinate of \<^verbatim>\<open>end_pos\<close>, and a query time after the end is clamped to that same
  position.
\<close>

theorem interpolate_position_binary64_endpoints:
  assumes "binary64_segment seg" and "start_time seg < end_time seg"
      and "t_before \<le> start_time seg" and "end_time seg \<le> t_after"
  shows "interpolate_position_binary64 seg (start_time seg) = Inr (start_pos seg) \<and>
         interpolate_position_binary64 seg t_before = Inr (start_pos seg) \<and>
         interpolate_position_binary64 seg (end_time seg) =
           Inr \<lparr>longitude = binary64 (longitude (start_pos seg) +
                    binary64 (longitude (end_pos seg) - longitude (start_pos seg))),
                 latitude = binary64 (latitude (start_pos seg) +
                    binary64 (latitude (end_pos seg) - latitude (start_pos seg))),
                 height = binary64 (height (start_pos seg) +
                    binary64 (height (end_pos seg) - height (start_pos seg)))\<rparr> \<and>
         interpolate_position_binary64 seg t_after =
           interpolate_position_binary64 seg (end_time seg)"
proof -
  have ne: "end_time seg \<noteq> start_time seg"
    using assms(2) by simp
  have fl: "binary64 (longitude (start_pos seg)) = longitude (start_pos seg)"
    "binary64 (latitude (start_pos seg)) = latitude (start_pos seg)"
    "binary64 (height (start_pos seg)) = height (start_pos seg)"
    using assms(1) by (simp_all add: binary64_segment_def binary64_value_def)
  have before: "interpolate_position_binary64 seg t = Inr (start_pos seg)"
    if "t \<le> start_time seg" for t
    unfolding interpolate_position_binary64_ratio [OF ne]
      ratio_binary64_before [OF assms(2) that]
    by (cases "start_pos seg") (use fl in \<open>simp add: binary64_zero\<close>)
  have after: "interpolate_position_binary64 seg t =
           Inr \<lparr>longitude = binary64 (longitude (start_pos seg) +
                    binary64 (longitude (end_pos seg) - longitude (start_pos seg))),
                 latitude = binary64 (latitude (start_pos seg) +
                    binary64 (latitude (end_pos seg) - latitude (start_pos seg))),
                 height = binary64 (height (start_pos seg) +
                    binary64 (height (end_pos seg) - height (start_pos seg)))\<rparr>"
    if "end_time seg \<le> t" for t
    unfolding interpolate_position_binary64_ratio [OF ne]
      ratio_binary64_after [OF assms(2) that]
    by (simp add: binary64_idem)
  show ?thesis
    using before [of "start_time seg"] before [OF assms(3)]
      after [of "end_time seg"] after [OF assms(4)] by simp
qed

theorem interpolate_position_binary64_endpoints_witness:
  "interpolate_position_binary64
     \<lparr>start_time = 0, end_time = 60,
      start_pos = \<lparr>longitude = 113.25, latitude = 23.125, height = 120\<rparr>,
      end_pos = \<lparr>longitude = 113.5, latitude = 23.25, height = 100\<rparr>,
      aircraft_id = ''Route-EW''\<rparr> 0
     = Inr \<lparr>longitude = 113.25, latitude = 23.125, height = 120\<rparr> \<and>
   interpolate_position_binary64
     \<lparr>start_time = 0, end_time = 60,
      start_pos = \<lparr>longitude = 113.25, latitude = 23.125, height = 120\<rparr>,
      end_pos = \<lparr>longitude = 113.5, latitude = 23.25, height = 100\<rparr>,
      aircraft_id = ''Route-EW''\<rparr> (- 15)
     = Inr \<lparr>longitude = 113.25, latitude = 23.125, height = 120\<rparr> \<and>
   interpolate_position_binary64
     \<lparr>start_time = 0, end_time = 60,
      start_pos = \<lparr>longitude = 113.25, latitude = 23.125, height = 120\<rparr>,
      end_pos = \<lparr>longitude = 113.5, latitude = 23.25, height = 100\<rparr>,
      aircraft_id = ''Route-EW''\<rparr> 60
     = Inr \<lparr>longitude = binary64 (113.25 + binary64 (113.5 - 113.25)),
             latitude = binary64 (23.125 + binary64 (23.25 - 23.125)),
             height = binary64 (120 + binary64 (100 - 120))\<rparr> \<and>
   interpolate_position_binary64
     \<lparr>start_time = 0, end_time = 60,
      start_pos = \<lparr>longitude = 113.25, latitude = 23.125, height = 120\<rparr>,
      end_pos = \<lparr>longitude = 113.5, latitude = 23.25, height = 100\<rparr>,
      aircraft_id = ''Route-EW''\<rparr> 75
     = interpolate_position_binary64
     \<lparr>start_time = 0, end_time = 60,
      start_pos = \<lparr>longitude = 113.25, latitude = 23.125, height = 120\<rparr>,
      end_pos = \<lparr>longitude = 113.5, latitude = 23.25, height = 100\<rparr>,
      aircraft_id = ''Route-EW''\<rparr> 60"
  using interpolate_position_binary64_endpoints [OF example_segment, of "- 15" 75]
  by simp

text \<open>
  C6: two segments with the same \<^verbatim>\<open>aircraft_id\<close> never produce a conflict event and never
  add conflict time. The loop body leaves the loop state unchanged on such a pair,
  whatever the positions; and in the result of \<^verbatim>\<open>calculate_ntsc\<close>, for every list of
  segments, every recorded event names two different aircraft and the total conflict time
  is exactly the sum of the durations of the recorded events.
\<close>

theorem no_self_conflict:
  "(aircraft_id seg1 = aircraft_id seg2 \<longrightarrow> check_pair seg1 seg2 st = Inr st) \<and>
   (\<exists>r. calculate_ntsc segs = Inr r \<and>
      list_all (\<lambda>d. fst (aircraft_pair d) \<noteq> snd (aircraft_pair d)) (conflict_details r) \<and>
      total_conflict_time r = sum_list (map duration (conflict_details r)))"
proof
  show "aircraft_id seg1 = aircraft_id seg2 \<longrightarrow> check_pair seg1 seg2 st = Inr st"
    by (cases st) (simp add: check_pair_def)
  obtain r where r: "calculate_ntsc segs = Inr r"
    and inv: "ntsc_invariant (total_conflict_time r, conflict_details r)"
    using calculate_ntsc_result [of segs] by blast
  show "\<exists>r. calculate_ntsc segs = Inr r \<and>
      list_all (\<lambda>d. fst (aircraft_pair d) \<noteq> snd (aircraft_pair d)) (conflict_details r) \<and>
      total_conflict_time r = sum_list (map duration (conflict_details r))"
    using r inv by (auto simp add: ntsc_invariant_def)
qed

theorem no_self_conflict_witness:
  "check_pair
     \<lparr>start_time = 0, end_time = 1,
      start_pos = \<lparr>longitude = 113.32, latitude = 23.12, height = 120\<rparr>,
      end_pos = \<lparr>longitude = 113.32, latitude = 23.12, height = 120\<rparr>,
      aircraft_id = ''A''\<rparr>
     \<lparr>start_time = 0, end_time = 1,
      start_pos = \<lparr>longitude = 113.32, latitude = 23.12, height = 120\<rparr>,
      end_pos = \<lparr>longitude = 113.32, latitude = 23.12, height = 120\<rparr>,
      aircraft_id = ''A''\<rparr> (0, []) = Inr (0, []) \<and>
   calculate_ntsc
     [\<lparr>start_time = 0, end_time = 1,
       start_pos = \<lparr>longitude = 113.32, latitude = 23.12, height = 120\<rparr>,
       end_pos = \<lparr>longitude = 113.32, latitude = 23.12, height = 120\<rparr>,
       aircraft_id = ''A''\<rparr>,
      \<lparr>start_time = 0, end_time = 1,
       start_pos = \<lparr>longitude = 113.32, latitude = 23.12, height = 120\<rparr>,
       end_pos = \<lparr>longitude = 113.32, latitude = 23.12, height = 120\<rparr>,
       aircraft_id = ''A''\<rparr>,
      \<lparr>start_time = 0, end_time = 1,
       start_pos = \<lparr>longitude = 113.32, latitude = 23.12, height = 120\<rparr>,
       end_pos = \<lparr>longitude = 113.32, latitude = 23.12, height = 120\<rparr>,
       aircraft_id = ''B''\<rparr>]
   = Inr \<lparr>ntsc_value = 4 / 3, conflict_percentage = 400 / 3, total_flight_time = 3,
           total_conflict_time = 4,
           conflict_details =
             [\<lparr>aircraft_pair = (''A'', ''B''), duration = 2,
                min_distance = Some 0, time_range = (0, 1)\<rparr>,
              \<lparr>aircraft_pair = (''A'', ''B''), duration = 2,
                min_distance = Some 0, time_range = (0, 1)\<rparr>],
           safety_level = ''CRITICAL''\<rparr>"
  using no_self_conflict
    [of "\<lparr>start_time = 0, end_time = 1,
      start_pos = \<lparr>longitude = 113.32, latitude = 23.12, height = 120\<rparr>,
      end_pos = \<lparr>longitude = 113.32, latitude = 23.12, height = 120\<rparr>,
      aircraft_id = ''A''\<rparr>"
     "\<lparr>start_time = 0, end_time = 1,
      start_pos = \<lparr>longitude = 113.32, latitude = 23.12, height = 120\<rparr>,
      end_pos = \<lparr>longitude = 113.32, latitude = 23.12, height = 120\<rparr>,
      aircraft_id = ''A''\<rparr>" "(0, [])"]
  by (simp add: calculate_ntsc_def check_pair_def calculate_conflict_duration_def
        conflict_loop_continue conflict_loop_exit hover_step time_step_def
        get_safety_level_def Let_def)

text \<open>
  C7: the severity classifier is monotone. Lowering the distance, the time difference or
  both never gives a lower tier in the order LOW < MEDIUM < HIGH < CRITICAL.
\<close>

theorem severity_monotone:
  assumes "d' \<le> d" and "t' \<le> t"
  shows "severity_rank (calculate_conflict_severity d t)
           \<le> severity_rank (calculate_conflict_severity d' t')"
proof -
  have crit: "d < 20 \<and> t < 10 \<Longrightarrow> d' < 20 \<and> t' < 10"
    and high: "d < 30 \<and> t < 30 \<Longrightarrow> d' < 30 \<and> t' < 30"
    and med: "d < 40 \<and> t < 45 \<Longrightarrow> d' < 40 \<and> t' < 45"
    using assms by simp_all
  show ?thesis
    using crit high med
    unfolding calculate_conflict_severity_def severity_rank_def
    by (cases "d < 20 \<and> t < 10"; cases "d < 30 \<and> t < 30"; cases "d < 40 \<and> t < 45";
        cases "d' < 20 \<and> t' < 10"; cases "d' < 30 \<and> t' < 30"; cases "d' < 40 \<and> t' < 45")
       simp_all
qed

theorem severity_monotone_witness:
  "calculate_conflict_severity 25 20 = ''HIGH'' \<and>
   calculate_conflict_severity 15 5 = ''CRITICAL'' \<and>
   severity_rank (calculate_conflict_severity 25 20)
     \<le> severity_rank (calculate_conflict_severity 15 5)"
  using severity_monotone [of 15 25 5 20]
  by (simp add: calculate_conflict_severity_def)



text \<open>
  C9: for every list of routes, \<^verbatim>\<open>analyze_route_conflicts\<close> returns a report whose
  \<^verbatim>\<open>total_conflicts\<close> is the number of entries of its \<^verbatim>\<open>conflicts\<close> list.
\<close>

theorem total_conflicts_is_length:
  "\<exists>report. analyze_route_conflicts routes = Inr report \<and>
     total_conflicts report = length (conflicts report)"
proof -
  obtain cs where "for_pairs check_routes routes [] = Inr cs"
    using for_pairs_total [of check_routes routes "[]", OF check_routes_total] by blast
  then show ?thesis
    by (simp add: analyze_route_conflicts_def)
qed




end
